theory Spec2Isabelle
  imports Main
begin

section \<open>Data model of \<open>nodes.py\<close>\<close>

text \<open>
  The node \<open>WanVideoBlockSwap\<close> works on objects that the host owns and that are shared
  by reference: model patchers (the model handles), and the base models under them. The
  embedding keeps both in a store, so that a clone and its original are two handles over
  the same base model, as in the host.
\<close>

datatype device = CPU | CUDA nat

text \<open>The two hook points \<open>CallbacksMP.ON_LOAD\<close> and \<open>CallbacksMP.ON_CLEANUP\<close>.\<close>

datatype hook = ON_LOAD | ON_CLEANUP

datatype level = INFO | WARNING

datatype module_ref = Block nat | TextEmbedding | ImgEmb

text \<open>
  What the node does to the outside world, in the order it does it: a line sent to
  \<open>logging\<close> (only its level is kept, not its text), a call \<open>module.to(device,
  non_blocking=flag)\<close>, a call of \<open>comfy.model_management.soft_empty_cache()\<close>, a call of
  \<open>gc.collect()\<close>.
\<close>

datatype event =
    Log level
  | ModuleTo module_ref device bool
  | SoftEmptyCache
  | GcCollect

text \<open>An exception raised by host code.\<close>

datatype error = Exception string

text \<open>The variables of \<open>set_callback\<close> that its two closures capture.\<close>

record captured =
  instance_id :: nat
  blocks_to_swap :: int
  offload_txt_emb :: bool
  offload_img_emb :: bool
  use_non_blocking :: bool

text \<open>A closure is its code (one of the two inner functions) and its captured variables.\<close>

datatype callback =
    Swap_blocks_after_load captured
  | Cleanup_after_sampling captured

text \<open>
  \<open>unet = base_model.diffusion_model\<close>: the residency of every block of \<open>unet.blocks\<close>, of
  \<open>unet.text_embedding\<close> and of \<open>unet.img_emb\<close>.
\<close>

record unet =
  blocks :: "device list"
  text_embedding :: device
  img_emb :: device

text \<open>
  A base model: whether it is an instance of \<open>WAN21\<close>, its diffusion model, its current
  parameter values and the baseline values they have when no patch is applied.
\<close>

record base_model =
  isinstance_WAN21 :: bool
  diffusion_model :: unet
  weights :: "int list"
  baseline :: "int list"

text \<open>
  A \<open>ModelPatcher\<close>: \<open>model\<close> is the address of the base model, \<open>callbacks\<close> the
  registrations in the order they were made.
\<close>

record model_patcher =
  model :: nat
  load_device :: device
  offload_device :: device
  callbacks :: "(hook \<times> string \<times> callback) list"

record world =
  patchers :: "nat \<Rightarrow> model_patcher"
  next_patcher :: nat
  models :: "nat \<Rightarrow> base_model"
  trace :: "event list"

definition blocks_of :: "world \<Rightarrow> nat \<Rightarrow> device list" where
  "blocks_of w p = blocks (diffusion_model (models w (model (patchers w p))))"

section \<open>Host primitives\<close>

definition log :: "level \<Rightarrow> world \<Rightarrow> world" where
  "log l w = w\<lparr>trace := trace w @ [Log l]\<rparr>"

text \<open>
  \<open>torch.nn.Module.to\<close> takes \<open>non_blocking=False\<close> when the caller leaves the argument out.
\<close>

definition default_non_blocking :: bool where
  "default_non_blocking = False"

text \<open>
  Modelled from the spec: \<open>Module.to\<close> is the host's device-transfer primitive (the
  "per-block and per-submodule device relocation" of the model handle's interface). After
  the call the module resides on the device given; the call does not fail.
\<close>

definition block_to :: "nat \<Rightarrow> nat \<Rightarrow> device \<Rightarrow> bool \<Rightarrow> world \<Rightarrow> world" where
  "block_to a b dev nb w =
     (let m = models w a; u = diffusion_model m in
      w\<lparr>models := (models w)(a := m\<lparr>diffusion_model := u\<lparr>blocks := (blocks u)[b := dev]\<rparr>\<rparr>),
        trace := trace w @ [ModuleTo (Block b) dev nb]\<rparr>)"

definition text_embedding_to :: "nat \<Rightarrow> device \<Rightarrow> bool \<Rightarrow> world \<Rightarrow> world" where
  "text_embedding_to a dev nb w =
     (let m = models w a; u = diffusion_model m in
      w\<lparr>models := (models w)(a := m\<lparr>diffusion_model := u\<lparr>text_embedding := dev\<rparr>\<rparr>),
        trace := trace w @ [ModuleTo TextEmbedding dev nb]\<rparr>)"

definition img_emb_to :: "nat \<Rightarrow> device \<Rightarrow> bool \<Rightarrow> world \<Rightarrow> world" where
  "img_emb_to a dev nb w =
     (let m = models w a; u = diffusion_model m in
      w\<lparr>models := (models w)(a := m\<lparr>diffusion_model := u\<lparr>img_emb := dev\<rparr>\<rparr>),
        trace := trace w @ [ModuleTo ImgEmb dev nb]\<rparr>)"

text \<open>
  Modelled from the spec: the memory-reclamation primitives \<open>soft_empty_cache\<close> and
  \<open>gc.collect\<close> of the runtime ("invoked as a bundled pass with no parameters and no
  return value consumed", "best-effort and never raises"). They touch no model.
\<close>

definition soft_empty_cache :: "world \<Rightarrow> world" where
  "soft_empty_cache w = w\<lparr>trace := trace w @ [SoftEmptyCache]\<rparr>"

definition gc_collect :: "world \<Rightarrow> world" where
  "gc_collect w = w\<lparr>trace := trace w @ [GcCollect]\<rparr>"

section \<open>The Residency Scheduler: \<open>swap_blocks_after_load\<close>\<close>

text \<open>
  The loop \<open>for b, block in enumerate(unet.blocks)\<close> over the model at address \<open>a\<close>:
  \<open>target_dev = main_device if b > blocks_to_swap else offload_device; block.to(target_dev)\<close>.
  The pairs are those of \<open>enumerate\<close>; \<open>tqdm\<close> around it only draws a progress bar. The
  call \<open>block.to\<close> is made without \<open>non_blocking\<close>.
\<close>

fun swap_loop :: "nat \<Rightarrow> device \<Rightarrow> device \<Rightarrow> int \<Rightarrow> (nat \<times> device) list \<Rightarrow> world \<Rightarrow> world" where
  "swap_loop a main_device offload_dev k [] w = w"
| "swap_loop a main_device offload_dev k ((b, block) # rest) w =
     (let target_dev = (if int b > k then main_device else offload_dev)
      in swap_loop a main_device offload_dev k rest (block_to a b target_dev default_non_blocking w))"

definition swap_blocks_after_load ::
    "captured \<Rightarrow> nat \<Rightarrow> device \<Rightarrow> int \<Rightarrow> bool \<Rightarrow> bool \<Rightarrow> world \<Rightarrow> world" where
  "swap_blocks_after_load c model_patcher device_to lowvram_model_memory force_patch_weights full_load w =
     (let w1 = log INFO w;
          base_model = model (patchers w1 model_patcher);
          main_device = load_device (patchers w1 model_patcher);
          offload_dev = offload_device (patchers w1 model_patcher);
          w2 = (if isinstance_WAN21 (models w1 base_model) then
                  (let unet = diffusion_model (models w1 base_model);
                       wa = log INFO w1;
                       wb = swap_loop base_model main_device offload_dev (blocks_to_swap c)
                              (enumerate 0 (blocks unet)) wa;
                       wc = (if offload_txt_emb c
                             then text_embedding_to base_model offload_dev (use_non_blocking c) (log INFO wb)
                             else wb);
                       wd = (if offload_img_emb c
                             then img_emb_to base_model offload_dev (use_non_blocking c) (log INFO wc)
                             else wc)
                   in wd)
                else log WARNING w1);
          w3 = soft_empty_cache w2;
          w4 = gc_collect w3
      in log INFO w4)"

text \<open>The device the loop sends block \<open>b\<close> to.\<close>

definition target_of :: "device \<Rightarrow> device \<Rightarrow> int \<Rightarrow> nat \<Rightarrow> device" where
  "target_of main_device offload_dev k b = (if int b > k then main_device else offload_dev)"

definition assign_blocks :: "device \<Rightarrow> device \<Rightarrow> int \<Rightarrow> nat list \<Rightarrow> device list \<Rightarrow> device list" where
  "assign_blocks main_device offload_dev k bs bl =
     fold (\<lambda>b acc. acc[b := target_of main_device offload_dev k b]) bs bl"

section \<open>The Cleanup Scheduler: \<open>cleanup_after_sampling\<close>\<close>

text \<open>
  \<open>ModelPatcher.unpatch_model(device_to, unpatch_weights)\<close> is host code and can raise. It
  is a parameter of the model: a function of the handle, the two arguments and the world,
  that returns the world it leaves behind, with the exception when it raises one.
\<close>

type_synonym unpatch_fn = "nat \<Rightarrow> device \<Rightarrow> bool \<Rightarrow> world \<Rightarrow> (error \<times> world) + world"

text \<open>
  The closure has no \<open>try\<close>: an exception of \<open>unpatch_model\<close> leaves it at once, with the
  world as \<open>unpatch_model\<close> left it.
\<close>

definition cleanup_after_sampling ::
    "unpatch_fn \<Rightarrow> captured \<Rightarrow> nat \<Rightarrow> world \<Rightarrow> (error \<times> world) + world" where
  "cleanup_after_sampling unpatch_model c model_patcher w =
     (let w1 = log INFO w in
      case unpatch_model model_patcher (offload_device (patchers w1 model_patcher)) True w1 of
        Inl raised \<Rightarrow> Inl raised
      | Inr w2 \<Rightarrow>
          (let w3 = soft_empty_cache w2;
               w4 = gc_collect w3
           in Inr (log INFO w4)))"

definition weights_of :: "world \<Rightarrow> nat \<Rightarrow> int list" where
  "weights_of w p = weights (models w (model (patchers w p)))"

definition baseline_of :: "world \<Rightarrow> nat \<Rightarrow> int list" where
  "baseline_of w p = baseline (models w (model (patchers w p)))"

text \<open>
  The contract of the patch-reversal operation in the model handle's interface ("a
  patch-reversal operation that restores baseline parameter values"): when a call with
  \<open>unpatch_weights=True\<close> returns, the model's parameters are its baseline ones, and the
  baseline is what it was.
\<close>

definition restores_baseline :: "unpatch_fn \<Rightarrow> bool" where
  "restores_baseline unpatch_model =
     (\<forall>p dev w w'. unpatch_model p dev True w = Inr w' \<longrightarrow>
        weights_of w' p = baseline_of w p \<and> baseline_of w' p = baseline_of w p)"

section \<open>Configuration Capture: \<open>set_callback\<close>\<close>

text \<open>\<open>str\<close> of a non-negative Python integer, as an f-string formats \<open>id(self)\<close>.\<close>

definition digit_char :: "nat \<Rightarrow> char" where
  "digit_char d = char_of (48 + d)"

fun str_nat :: "nat \<Rightarrow> string" where
  "str_nat n = (if n < 10 then [digit_char n] else str_nat (n div 10) @ [digit_char (n mod 10)])"

declare str_nat.simps [simp del]

definition digit_val :: "char \<Rightarrow> nat" where
  "digit_val ch = of_char ch - 48"

definition nat_of_str :: "string \<Rightarrow> nat" where
  "nat_of_str s = foldl (\<lambda>acc ch. 10 * acc + digit_val ch) 0 s"

text \<open>The keys \<open>f"wan_block_swap_{instance_id}"\<close> and \<open>f"wan_cleanup_{instance_id}"\<close>.\<close>

definition swap_key :: "nat \<Rightarrow> string" where
  "swap_key i = ''wan_block_swap_'' @ str_nat i"

definition cleanup_key :: "nat \<Rightarrow> string" where
  "cleanup_key i = ''wan_cleanup_'' @ str_nat i"

text \<open>
  Modelled from the spec: \<open>ModelPatcher.clone()\<close> is host code ("a new handle referencing a
  logically independent configuration layer over the same underlying architecture"). The
  clone is a new handle with a copy of the original's fields; the base model is shared.
\<close>

definition clone :: "nat \<Rightarrow> world \<Rightarrow> nat \<times> world" where
  "clone p w =
     (next_patcher w,
      w\<lparr>patchers := (patchers w)(next_patcher w := patchers w p),
        next_patcher := Suc (next_patcher w)\<rparr>)"

text \<open>
  Modelled from the spec: \<open>ModelPatcher.add_callback_with_key\<close> is host code ("callback
  registration keyed by lifecycle phase with a unique string key"). The registration is
  added to the table of the handle it is called on.
\<close>

definition add_callback_with_key :: "hook \<Rightarrow> string \<Rightarrow> callback \<Rightarrow> nat \<Rightarrow> world \<Rightarrow> world" where
  "add_callback_with_key call_type key cb p w =
     w\<lparr>patchers := (patchers w)
          (p := (patchers w p)\<lparr>callbacks := callbacks (patchers w p) @ [(call_type, key, cb)]\<rparr>)\<rparr>"

text \<open>
  \<open>set_callback(self, model, blocks_to_swap, offload_txt_emb, offload_img_emb,
  use_non_blocking)\<close>; \<open>self_id\<close> is \<open>id(self)\<close>. It returns the handle of the clone.
\<close>

definition set_callback ::
    "nat \<Rightarrow> nat \<Rightarrow> int \<Rightarrow> bool \<Rightarrow> bool \<Rightarrow> bool \<Rightarrow> world \<Rightarrow> nat \<times> world" where
  "set_callback self_id model_in k txt img nb w =
     (let c = \<lparr>instance_id = self_id, blocks_to_swap = k, offload_txt_emb = txt,
                offload_img_emb = img, use_non_blocking = nb\<rparr>;
          w1 = log INFO w;
          (m, w2) = clone model_in w1;
          w3 = add_callback_with_key ON_LOAD (swap_key (instance_id c)) (Swap_blocks_after_load c) m w2;
          w4 = add_callback_with_key ON_CLEANUP (cleanup_key (instance_id c)) (Cleanup_after_sampling c) m w3
      in (m, w4))"

section \<open>Concrete inputs\<close>

text \<open>
  A world with one handle over one model of three blocks, all on the compute device
  \<open>CUDA 0\<close> after the load; the offload device is \<open>CPU\<close>. The model carries a patch: its
  weights differ from the baseline.
\<close>

definition ex_unet :: unet where
  "ex_unet = \<lparr>blocks = [CUDA 0, CUDA 0, CUDA 0], text_embedding = CUDA 0, img_emb = CUDA 0\<rparr>"

definition ex_model :: "bool \<Rightarrow> base_model" where
  "ex_model wan = \<lparr>isinstance_WAN21 = wan, diffusion_model = ex_unet,
                   weights = [5, 7], baseline = [1, 2]\<rparr>"

definition ex_patcher :: model_patcher where
  "ex_patcher = \<lparr>model = 0, load_device = CUDA 0, offload_device = CPU, callbacks = []\<rparr>"

definition ex_world :: "bool \<Rightarrow> world" where
  "ex_world wan = \<lparr>patchers = (\<lambda>_. ex_patcher), next_patcher = 1,
                   models = (\<lambda>_. ex_model wan), trace = []\<rparr>"

definition ex_captured :: "int \<Rightarrow> bool \<Rightarrow> bool \<Rightarrow> bool \<Rightarrow> captured" where
  "ex_captured k txt img nb = \<lparr>instance_id = 140, blocks_to_swap = k, offload_txt_emb = txt,
                               offload_img_emb = img, use_non_blocking = nb\<rparr>"

text \<open>A host whose \<open>unpatch_model\<close> puts the baseline values back, and one whose call raises.\<close>

definition restoring_unpatch :: unpatch_fn where
  "restoring_unpatch p dev unpatch_weights w =
     (let a = model (patchers w p); m = models w a in
      Inr (if unpatch_weights then w\<lparr>models := (models w)(a := m\<lparr>weights := baseline m\<rparr>)\<rparr> else w))"

definition failing_unpatch :: unpatch_fn where
  "failing_unpatch p dev unpatch_weights w = Inl (Exception ''unpatch failed'', w)"

text \<open>The example world after a cleanup with \<open>restoring_unpatch\<close>, with trace \<open>tr\<close>.\<close>

definition ex_cleaned :: "event list \<Rightarrow> world" where
  "ex_cleaned tr = (ex_world True)\<lparr>models := (models (ex_world True))(0 := (ex_model True)\<lparr>weights := [1, 2]\<rparr>),
                        trace := tr\<rparr>"

section \<open>Facts about the block loop\<close>

lemma assign_blocks_length [simp]:
  "length (assign_blocks m off k bs bl) = length bl"
  unfolding assign_blocks_def by (induction bs arbitrary: bl) simp_all

lemma assign_blocks_nth:
  "i < length bl \<Longrightarrow>
   assign_blocks m off k bs bl ! i = (if i \<in> set bs then target_of m off k i else bl ! i)"
  unfolding assign_blocks_def
proof (induction bs arbitrary: bl)
  case Nil
  then show ?case by simp
next
  case (Cons b bs)
  have "fold (\<lambda>b acc. acc[b := target_of m off k b]) bs (bl[b := target_of m off k b]) ! i =
        (if i \<in> set bs then target_of m off k i else bl[b := target_of m off k b] ! i)"
    using Cons.IH [of "bl[b := target_of m off k b]"] Cons.prems by simp
  then show ?case using Cons.prems by (auto simp: nth_list_update)
qed

lemma swap_loop_closed:
  "swap_loop a m off k ps w =
     w\<lparr>models := (models w)(a := (models w a)\<lparr>diffusion_model := (diffusion_model (models w a))
           \<lparr>blocks := assign_blocks m off k (map fst ps) (blocks (diffusion_model (models w a)))\<rparr>\<rparr>),
       trace := trace w @ map (\<lambda>b. ModuleTo (Block b) (target_of m off k b) default_non_blocking) (map fst ps)\<rparr>"
proof (induction ps arbitrary: w)
  case Nil
  then show ?case by (simp add: assign_blocks_def)
next
  case (Cons q ps)
  obtain b block where q: "q = (b, block)" by (cases q)
  show ?case
    unfolding q
    apply (simp add: Cons.IH block_to_def Let_def assign_blocks_def target_of_def)
    apply (auto intro!: world.equality simp: fun_eq_iff)
    done
qed

section \<open>Facts about \<open>swap_blocks_after_load\<close>\<close>

lemma swap_patchers:
  "patchers (swap_blocks_after_load c p dev mem fpw fl w) = patchers w"
  by (simp add: swap_blocks_after_load_def Let_def swap_loop_closed log_def
      text_embedding_to_def img_emb_to_def soft_empty_cache_def gc_collect_def)

lemma swap_blocks_of:
  assumes "isinstance_WAN21 (models w (model (patchers w p)))"
  shows "blocks_of (swap_blocks_after_load c p dev mem fpw fl w) p =
         assign_blocks (load_device (patchers w p)) (offload_device (patchers w p))
           (blocks_to_swap c) [0..<length (blocks_of w p)] (blocks_of w p)"
  using assms
  by (simp add: blocks_of_def swap_blocks_after_load_def Let_def swap_loop_closed log_def
      text_embedding_to_def img_emb_to_def soft_empty_cache_def gc_collect_def)

lemma swap_trace_wan21:
  assumes "isinstance_WAN21 (models w (model (patchers w p)))"
  shows "trace (swap_blocks_after_load c p dev mem fpw fl w) =
         trace w @ [Log INFO, Log INFO] @
         map (\<lambda>b. ModuleTo (Block b)
                (target_of (load_device (patchers w p)) (offload_device (patchers w p)) (blocks_to_swap c) b)
                default_non_blocking) [0..<length (blocks_of w p)] @
         (if offload_txt_emb c
          then [Log INFO, ModuleTo TextEmbedding (offload_device (patchers w p)) (use_non_blocking c)] else []) @
         (if offload_img_emb c
          then [Log INFO, ModuleTo ImgEmb (offload_device (patchers w p)) (use_non_blocking c)] else []) @
         [SoftEmptyCache, GcCollect, Log INFO]"
  using assms
  by (simp add: blocks_of_def swap_blocks_after_load_def Let_def swap_loop_closed log_def
      text_embedding_to_def img_emb_to_def soft_empty_cache_def gc_collect_def)

lemma swap_other:
  assumes "\<not> isinstance_WAN21 (models w (model (patchers w p)))"
  shows "swap_blocks_after_load c p dev mem fpw fl w =
         w\<lparr>trace := trace w @ [Log INFO, Log WARNING, SoftEmptyCache, GcCollect, Log INFO]\<rparr>"
  using assms
  by (simp add: swap_blocks_after_load_def Let_def log_def soft_empty_cache_def gc_collect_def)

section \<open>Facts about the keys\<close>

lemma digit_val_digit_char: "d < 10 \<Longrightarrow> digit_val (digit_char d) = d"
  by (simp add: digit_val_def digit_char_def)

lemma nat_of_str_snoc: "nat_of_str (s @ [ch]) = 10 * nat_of_str s + digit_val ch"
  by (simp add: nat_of_str_def)

lemma nat_of_str_str_nat: "nat_of_str (str_nat n) = n"
proof (induction n rule: str_nat.induct)
  case (1 n)
  show ?case
  proof (cases "n < 10")
    case True
    then show ?thesis
      by (subst str_nat.simps) (simp add: nat_of_str_def digit_val_digit_char)
  next
    case False
    have "nat_of_str (str_nat n) = 10 * nat_of_str (str_nat (n div 10)) + digit_val (digit_char (n mod 10))"
      using False by (subst str_nat.simps) (simp add: nat_of_str_snoc)
    also have "\<dots> = 10 * (n div 10) + n mod 10"
      using "1.IH" [OF False] by (simp add: digit_val_digit_char)
    also have "\<dots> = n" by simp
    finally show ?thesis .
  qed
qed

lemma str_nat_inj: "str_nat i = str_nat j \<Longrightarrow> i = j"
  by (metis nat_of_str_str_nat)

lemma keys_distinct:
  "i \<noteq> j \<Longrightarrow> swap_key i \<noteq> swap_key j"
  "i \<noteq> j \<Longrightarrow> cleanup_key i \<noteq> cleanup_key j"
  "swap_key i \<noteq> cleanup_key j"
  "cleanup_key j \<noteq> swap_key i"
  by (auto simp: swap_key_def cleanup_key_def dest: str_nat_inj)

section \<open>Facts about \<open>set_callback\<close> and the example hosts\<close>

lemma set_callback_result:
  "set_callback self_id p k txt img nb w =
    (next_patcher w,
     w\<lparr>patchers := (patchers w)(next_patcher w := (patchers w p)\<lparr>callbacks := callbacks (patchers w p) @
          [(ON_LOAD, swap_key self_id, Swap_blocks_after_load
              \<lparr>instance_id = self_id, blocks_to_swap = k, offload_txt_emb = txt,
                offload_img_emb = img, use_non_blocking = nb\<rparr>),
           (ON_CLEANUP, cleanup_key self_id, Cleanup_after_sampling
              \<lparr>instance_id = self_id, blocks_to_swap = k, offload_txt_emb = txt,
                offload_img_emb = img, use_non_blocking = nb\<rparr>)]\<rparr>),
       next_patcher := Suc (next_patcher w),
       trace := trace w @ [Log INFO]\<rparr>)"
  by (simp add: set_callback_def Let_def clone_def add_callback_with_key_def log_def)

lemma restoring_unpatch_restores: "restores_baseline restoring_unpatch"
  by (auto simp: restores_baseline_def restoring_unpatch_def Let_def weights_of_def baseline_of_def)

section \<open>Facts about the concrete inputs\<close>

lemma ex_blocks: "blocks_of (ex_world wan) 0 = [CUDA 0, CUDA 0, CUDA 0]"
  by (simp add: blocks_of_def ex_world_def ex_model_def ex_unet_def)

lemma ex_wan: "isinstance_WAN21 (models (ex_world wan) (model (patchers (ex_world wan) 0))) = wan"
  by (simp add: ex_world_def ex_model_def)

lemma ex_devices:
  "load_device (patchers (ex_world wan) 0) = CUDA 0"
  "offload_device (patchers (ex_world wan) 0) = CPU"
  by (simp_all add: ex_world_def ex_patcher_def)

lemma ex_trace: "trace (ex_world wan) = []"
  by (simp add: ex_world_def)

lemma ex_swap_blocks:
  "blocks_of (swap_blocks_after_load (ex_captured k txt img nb) 0 dev mem fpw fl (ex_world True)) 0 =
   [if 0 > k then CUDA 0 else CPU, if 1 > k then CUDA 0 else CPU, if 2 > k then CUDA 0 else CPU]"
  by (simp add: swap_blocks_of ex_wan ex_blocks ex_devices assign_blocks_def target_of_def
      ex_captured_def upt_rec)

lemma ex_swap_trace:
  "trace (swap_blocks_after_load (ex_captured 1 True False True) 0 (CUDA 0) 0 False False (ex_world True)) =
   [Log INFO, Log INFO, ModuleTo (Block 0) CPU False, ModuleTo (Block 1) CPU False,
    ModuleTo (Block 2) (CUDA 0) False, Log INFO, ModuleTo TextEmbedding CPU True,
    SoftEmptyCache, GcCollect, Log INFO]"
  by (simp add: swap_trace_wan21 ex_wan ex_blocks ex_devices ex_trace target_of_def
      default_non_blocking_def ex_captured_def upt_rec)

lemma ex_restoring:
  "restoring_unpatch 0 CPU True (log INFO (ex_world True)) =
   Inr ((ex_world True)\<lparr>models := (models (ex_world True))(0 := (ex_model True)\<lparr>weights := [1, 2]\<rparr>),
                        trace := [Log INFO]\<rparr>)"
  by (simp add: restoring_unpatch_def Let_def log_def ex_world_def ex_patcher_def ex_model_def)

lemma ex_cleanup_once:
  "cleanup_after_sampling restoring_unpatch (ex_captured 1 False False False) 0 (ex_world True) =
     Inr (ex_cleaned [Log INFO, SoftEmptyCache, GcCollect, Log INFO])"
  by (simp add: cleanup_after_sampling_def Let_def restoring_unpatch_def log_def soft_empty_cache_def
      gc_collect_def ex_world_def ex_patcher_def ex_model_def ex_cleaned_def)

lemma ex_cleanup_twice:
  "cleanup_after_sampling restoring_unpatch (ex_captured 1 False False False) 0
     (ex_cleaned [Log INFO, SoftEmptyCache, GcCollect, Log INFO]) =
     Inr (ex_cleaned [Log INFO, SoftEmptyCache, GcCollect, Log INFO, Log INFO, SoftEmptyCache, GcCollect, Log INFO])"
  by (simp add: cleanup_after_sampling_def Let_def restoring_unpatch_def log_def soft_empty_cache_def
      gc_collect_def ex_world_def ex_patcher_def ex_model_def ex_cleaned_def)

lemma str_nat_140: "str_nat 140 = ''140''"
  by code_simp


lemma ex_keys: "swap_key 140 = ''wan_block_swap_140''" "cleanup_key 140 = ''wan_cleanup_140''"
  "swap_key 141 = ''wan_block_swap_141''" "cleanup_key 141 = ''wan_cleanup_141''"
  by code_simp+

lemma ex_set_callback:
  "set_callback 140 0 20 False True False (ex_world True) =
    (1, (ex_world True)\<lparr>patchers := (patchers (ex_world True))(1 := ex_patcher\<lparr>callbacks :=
          [(ON_LOAD, ''wan_block_swap_140'', Swap_blocks_after_load (ex_captured 20 False True False)),
           (ON_CLEANUP, ''wan_cleanup_140'', Cleanup_after_sampling (ex_captured 20 False True False))]\<rparr>),
       next_patcher := 2, trace := [Log INFO]\<rparr>)"
  by (simp add: set_callback_result swap_key_def cleanup_key_def str_nat_140 ex_captured_def
      ex_world_def ex_patcher_def)

section \<open>The Residency Scheduler on a recognized architecture\<close>

text \<open>
  C1. On a model that is an instance of \<open>WAN21\<close>, after \<open>swap_blocks_after_load\<close> the block
  sequence has the length it had, every block whose index is strictly greater than
  \<open>blocks_to_swap\<close> is on the load (compute) device of the handle, and every block whose
  index is at most \<open>blocks_to_swap\<close> is on its offload device. This holds for every
  integer cutoff, so for those within the bound 0..40 of the node's input.
\<close>

theorem swap_blocks_residency:
  assumes "isinstance_WAN21 (models w (model (patchers w p)))"
    and "b < length (blocks_of w p)"
  shows "length (blocks_of (swap_blocks_after_load c p dev mem fpw fl w) p) = length (blocks_of w p) \<and>
         (int b > blocks_to_swap c \<longrightarrow>
            blocks_of (swap_blocks_after_load c p dev mem fpw fl w) p ! b = load_device (patchers w p)) \<and>
         (int b \<le> blocks_to_swap c \<longrightarrow>
            blocks_of (swap_blocks_after_load c p dev mem fpw fl w) p ! b = offload_device (patchers w p))"
  using assms by (simp add: swap_blocks_of assign_blocks_nth target_of_def)

theorem swap_blocks_residency_witness:
  "isinstance_WAN21 (models (ex_world True) (model (patchers (ex_world True) 0))) \<and>
   (1::nat) < length (blocks_of (ex_world True) 0) \<and>
   int 1 > blocks_to_swap (ex_captured 0 False False False) \<and>
   length (blocks_of (swap_blocks_after_load (ex_captured 0 False False False) 0 (CUDA 0) 0 False False
      (ex_world True)) 0) = 3 \<and>
   blocks_of (swap_blocks_after_load (ex_captured 0 False False False) 0 (CUDA 0) 0 False False
      (ex_world True)) 0 ! 1 = CUDA 0 \<and>
   blocks_of (swap_blocks_after_load (ex_captured 0 False False False) 0 (CUDA 0) 0 False False
      (ex_world True)) 0 = [CPU, CUDA 0, CUDA 0]"
proof -
  have wan: "isinstance_WAN21 (models (ex_world True) (model (patchers (ex_world True) 0)))"
    by (simp add: ex_wan)
  have len: "(1::nat) < length (blocks_of (ex_world True) 0)"
    by (simp add: ex_blocks)
  have k: "blocks_to_swap (ex_captured 0 False False False) = 0"
    by (simp add: ex_captured_def)
  show ?thesis
    using swap_blocks_residency [OF wan len, of "ex_captured 0 False False False" "CUDA 0" 0 False False]
    by (simp add: ex_wan ex_blocks ex_devices ex_swap_blocks k)
qed

text \<open>
  C2, as amended. When \<open>blocks_to_swap\<close> is \<open>N - 1\<close>, \<open>N\<close> the length of the block sequence,
  every block is on the offload device after the scheduler has run, the last one
  (index \<open>N - 1\<close>) included: \<open>b > blocks_to_swap\<close> holds for no index of the sequence.
\<close>

theorem swap_max_cutoff_all_offloaded:
  assumes "isinstance_WAN21 (models w (model (patchers w p)))"
    and "blocks_to_swap c = int (length (blocks_of w p)) - 1"
    and "b < length (blocks_of w p)"
  shows "blocks_of (swap_blocks_after_load c p dev mem fpw fl w) p ! b = offload_device (patchers w p)"
  using assms by (simp add: swap_blocks_of assign_blocks_nth target_of_def)

theorem swap_max_cutoff_all_offloaded_witness:
  "isinstance_WAN21 (models (ex_world True) (model (patchers (ex_world True) 0))) \<and>
   blocks_to_swap (ex_captured 2 False False False) = int (length (blocks_of (ex_world True) 0)) - 1 \<and>
   (2::nat) < length (blocks_of (ex_world True) 0) \<and>
   blocks_of (swap_blocks_after_load (ex_captured 2 False False False) 0 (CUDA 0) 0 False False
      (ex_world True)) 0 ! 2 = CPU"
proof -
  have wan: "isinstance_WAN21 (models (ex_world True) (model (patchers (ex_world True) 0)))"
    by (simp add: ex_wan)
  have k: "blocks_to_swap (ex_captured 2 False False False) = int (length (blocks_of (ex_world True) 0)) - 1"
    by (simp add: ex_blocks ex_captured_def)
  have len: "(2::nat) < length (blocks_of (ex_world True) 0)"
    by (simp add: ex_blocks)
  show ?thesis
    using swap_max_cutoff_all_offloaded [OF wan k len, of "CUDA 0" 0 False False] wan k len
    by (simp add: ex_devices)
qed

text \<open>
  C2 as the spec states it fails: with three blocks and \<open>blocks_to_swap = 2\<close>, the last block
  is not on the load device.
\<close>

theorem swap_max_cutoff_last_counterexample:
  "isinstance_WAN21 (models (ex_world True) (model (patchers (ex_world True) 0))) \<and>
   blocks_to_swap (ex_captured 2 False False False) = int (length (blocks_of (ex_world True) 0)) - 1 \<and>
   blocks_of (swap_blocks_after_load (ex_captured 2 False False False) 0 (CUDA 0) 0 False False
      (ex_world True)) 0 ! (length (blocks_of (ex_world True) 0) - 1)
     \<noteq> load_device (patchers (ex_world True) 0)"
proof -
  have k: "blocks_to_swap (ex_captured 2 False False False) = 2"
    by (simp add: ex_captured_def)
  show ?thesis
    by (simp add: ex_wan ex_blocks ex_devices ex_swap_blocks k)
qed

section \<open>The Residency Scheduler on another architecture\<close>

text \<open>
  C3. On a model that is not an instance of \<open>WAN21\<close>, \<open>swap_blocks_after_load\<close> returns (it
  has no exception to raise), and the world it leaves differs from the one it found only
  in the trace, which gains the opening log line, the warning, the reclamation pass and
  the closing log line: no block and neither of \<open>text_embedding\<close> and \<open>img_emb\<close> is moved.
\<close>

theorem swap_unrecognized_noop:
  assumes "\<not> isinstance_WAN21 (models w (model (patchers w p)))"
  shows "swap_blocks_after_load c p dev mem fpw fl w =
           w\<lparr>trace := trace w @ [Log INFO, Log WARNING, SoftEmptyCache, GcCollect, Log INFO]\<rparr> \<and>
         models (swap_blocks_after_load c p dev mem fpw fl w) = models w \<and>
         patchers (swap_blocks_after_load c p dev mem fpw fl w) = patchers w"
  using assms by (simp add: swap_other)

theorem swap_unrecognized_noop_witness:
  "\<not> isinstance_WAN21 (models (ex_world False) (model (patchers (ex_world False) 0))) \<and>
   swap_blocks_after_load (ex_captured 1 True True True) 0 (CUDA 0) 0 False False (ex_world False) =
     (ex_world False)\<lparr>trace := [Log INFO, Log WARNING, SoftEmptyCache, GcCollect, Log INFO]\<rparr> \<and>
   blocks_of (swap_blocks_after_load (ex_captured 1 True True True) 0 (CUDA 0) 0 False False
      (ex_world False)) 0 = [CUDA 0, CUDA 0, CUDA 0]"
proof -
  have other: "\<not> isinstance_WAN21 (models (ex_world False) (model (patchers (ex_world False) 0)))"
    by (simp add: ex_wan)
  show ?thesis
    using swap_unrecognized_noop [OF other, of "ex_captured 1 True True True" "CUDA 0" 0 False False] other
    by (simp add: ex_trace blocks_of_def ex_world_def ex_model_def ex_unet_def)
qed

section \<open>The arguments the Residency Scheduler ignores\<close>

text \<open>
  C9. Two calls of \<open>swap_blocks_after_load\<close> on the same world, handle and captured policy
  that differ in \<open>device_to\<close>, \<open>lowvram_model_memory\<close>, \<open>force_patch_weights\<close> and \<open>full_load\<close>
  leave the same world: the residency of every block and of both auxiliary sub-modules
  is the same.
\<close>

theorem swap_ignores_load_parameters:
  "swap_blocks_after_load c p dev1 mem1 fpw1 fl1 w = swap_blocks_after_load c p dev2 mem2 fpw2 fl2 w"
  by (simp add: swap_blocks_after_load_def)

section \<open>Blocking and non-blocking transfers\<close>

text \<open>
  C10. Of the calls that \<open>swap_blocks_after_load\<close> makes, every \<open>block.to\<close> is made with
  \<open>non_blocking\<close> false (the argument is left out), whatever \<open>use_non_blocking\<close> is, and the
  calls on \<open>text_embedding\<close> and \<open>img_emb\<close> are made with \<open>non_blocking=use_non_blocking\<close>.
\<close>

theorem swap_block_transfers_blocking:
  assumes "e \<in> set (drop (length (trace w)) (trace (swap_blocks_after_load c p dev mem fpw fl w)))"
  shows "(\<forall>b d nb. e = ModuleTo (Block b) d nb \<longrightarrow> \<not> nb) \<and>
         (\<forall>d nb. e = ModuleTo TextEmbedding d nb \<longrightarrow> nb = use_non_blocking c) \<and>
         (\<forall>d nb. e = ModuleTo ImgEmb d nb \<longrightarrow> nb = use_non_blocking c)"
proof (cases "isinstance_WAN21 (models w (model (patchers w p)))")
  case True
  from assms show ?thesis
    by (auto simp: swap_trace_wan21 [OF True] default_non_blocking_def split: if_splits)
next
  case False
  from assms show ?thesis
    by (auto simp: swap_other [OF False])
qed

theorem swap_block_transfers_blocking_witness:
  "ModuleTo (Block 0) CPU False \<in> set (drop (length (trace (ex_world True)))
      (trace (swap_blocks_after_load (ex_captured 1 True False True) 0 (CUDA 0) 0 False False (ex_world True)))) \<and>
   ModuleTo TextEmbedding CPU True \<in> set (drop (length (trace (ex_world True)))
      (trace (swap_blocks_after_load (ex_captured 1 True False True) 0 (CUDA 0) 0 False False (ex_world True)))) \<and>
   use_non_blocking (ex_captured 1 True False True)"
proof -
  have m: "ModuleTo TextEmbedding CPU True \<in> set (drop (length (trace (ex_world True)))
      (trace (swap_blocks_after_load (ex_captured 1 True False True) 0 (CUDA 0) 0 False False (ex_world True))))"
    by (simp add: ex_swap_trace ex_trace)
  have b: "ModuleTo (Block 0) CPU False \<in> set (drop (length (trace (ex_world True)))
      (trace (swap_blocks_after_load (ex_captured 1 True False True) 0 (CUDA 0) 0 False False (ex_world True))))"
    by (simp add: ex_swap_trace ex_trace)
  have f: "use_non_blocking (ex_captured 1 True False True)"
    by (simp add: ex_captured_def)
  show ?thesis
    using swap_block_transfers_blocking [OF m] m b f by blast
qed

section \<open>The reclamation pass\<close>

text \<open>
  C8. The events of \<open>swap_blocks_after_load\<close> end with \<open>soft_empty_cache()\<close>, then
  \<open>gc.collect()\<close>, then the closing log line; everything before them, all the device
  transfers among it, holds no reclamation call. When \<open>unpatch_model\<close> returns,
  \<open>cleanup_after_sampling\<close> returns the world \<open>unpatch_model\<close> left with the same three
  events added after it.
\<close>

theorem schedulers_end_with_reclamation:
  "(\<exists>pre. trace (swap_blocks_after_load c p dev mem fpw fl w) =
            trace w @ pre @ [SoftEmptyCache, GcCollect, Log INFO] \<and>
          SoftEmptyCache \<notin> set pre \<and> GcCollect \<notin> set pre) \<and>
   (\<forall>w2. unpatch_model p (offload_device (patchers w p)) True (log INFO w) = Inr w2 \<longrightarrow>
      cleanup_after_sampling unpatch_model c p w =
        Inr (w2\<lparr>trace := trace w2 @ [SoftEmptyCache, GcCollect, Log INFO]\<rparr>))"
proof
  show "\<exists>pre. trace (swap_blocks_after_load c p dev mem fpw fl w) =
            trace w @ pre @ [SoftEmptyCache, GcCollect, Log INFO] \<and>
          SoftEmptyCache \<notin> set pre \<and> GcCollect \<notin> set pre"
  proof (cases "isinstance_WAN21 (models w (model (patchers w p)))")
    case True
    let ?pre = "[Log INFO, Log INFO] @
         map (\<lambda>b. ModuleTo (Block b)
                (target_of (load_device (patchers w p)) (offload_device (patchers w p)) (blocks_to_swap c) b)
                default_non_blocking) [0..<length (blocks_of w p)] @
         (if offload_txt_emb c
          then [Log INFO, ModuleTo TextEmbedding (offload_device (patchers w p)) (use_non_blocking c)] else []) @
         (if offload_img_emb c
          then [Log INFO, ModuleTo ImgEmb (offload_device (patchers w p)) (use_non_blocking c)] else [])"
    have "trace (swap_blocks_after_load c p dev mem fpw fl w) =
            trace w @ ?pre @ [SoftEmptyCache, GcCollect, Log INFO]"
      by (simp add: swap_trace_wan21 [OF True])
    moreover have "SoftEmptyCache \<notin> set ?pre \<and> GcCollect \<notin> set ?pre" by auto
    ultimately show ?thesis by blast
  next
    case False
    have "trace (swap_blocks_after_load c p dev mem fpw fl w) =
            trace w @ [Log INFO, Log WARNING] @ [SoftEmptyCache, GcCollect, Log INFO]"
      by (simp add: swap_other [OF False])
    moreover have "SoftEmptyCache \<notin> set [Log INFO, Log WARNING] \<and>
                   GcCollect \<notin> set [Log INFO, Log WARNING]"
      by simp
    ultimately show ?thesis by blast
  qed
next
  show "\<forall>w2. unpatch_model p (offload_device (patchers w p)) True (log INFO w) = Inr w2 \<longrightarrow>
      cleanup_after_sampling unpatch_model c p w =
        Inr (w2\<lparr>trace := trace w2 @ [SoftEmptyCache, GcCollect, Log INFO]\<rparr>)"
    by (simp add: cleanup_after_sampling_def Let_def log_def soft_empty_cache_def gc_collect_def)
qed

theorem schedulers_end_with_reclamation_witness:
  "restoring_unpatch 0 (offload_device (patchers (ex_world True) 0)) True (log INFO (ex_world True)) =
     Inr ((ex_world True)\<lparr>models := (models (ex_world True))(0 := (ex_model True)\<lparr>weights := [1, 2]\<rparr>),
                          trace := [Log INFO]\<rparr>) \<and>
   cleanup_after_sampling restoring_unpatch (ex_captured 1 False False False) 0 (ex_world True) =
     Inr ((ex_world True)\<lparr>models := (models (ex_world True))(0 := (ex_model True)\<lparr>weights := [1, 2]\<rparr>),
                          trace := [Log INFO, SoftEmptyCache, GcCollect, Log INFO]\<rparr>)"
  using schedulers_end_with_reclamation [of "ex_captured 1 False False False" 0 "CUDA 0" 0 False False
      "ex_world True" restoring_unpatch]
  by (simp add: ex_devices ex_restoring)

section \<open>Failure of the Cleanup Scheduler\<close>

text \<open>
  C5. When \<open>unpatch_model\<close> raises, \<open>cleanup_after_sampling\<close> raises the same exception and
  leaves the world as \<open>unpatch_model\<close> left it: nothing of the reclamation pass is run.
  When \<open>unpatch_model\<close> returns, \<open>cleanup_after_sampling\<close> returns. So it raises exactly
  when \<open>unpatch_model\<close> does.
\<close>

theorem cleanup_raises_iff_unpatch_raises:
  "(\<forall>raised. unpatch_model p (offload_device (patchers w p)) True (log INFO w) = Inl raised \<longrightarrow>
      cleanup_after_sampling unpatch_model c p w = Inl raised) \<and>
   (\<forall>w2. unpatch_model p (offload_device (patchers w p)) True (log INFO w) = Inr w2 \<longrightarrow>
      (\<exists>w3. cleanup_after_sampling unpatch_model c p w = Inr w3)) \<and>
   isl (cleanup_after_sampling unpatch_model c p w) =
     isl (unpatch_model p (offload_device (patchers w p)) True (log INFO w))"
  by (auto simp: cleanup_after_sampling_def Let_def log_def split: sum.splits)

theorem cleanup_raises_iff_unpatch_raises_witness:
  "failing_unpatch 0 (offload_device (patchers (ex_world True) 0)) True (log INFO (ex_world True)) =
     Inl (Exception ''unpatch failed'', log INFO (ex_world True)) \<and>
   cleanup_after_sampling failing_unpatch (ex_captured 1 False False False) 0 (ex_world True) =
     Inl (Exception ''unpatch failed'', log INFO (ex_world True)) \<and>
   trace (log INFO (ex_world True)) = [Log INFO]"
  using cleanup_raises_iff_unpatch_raises [of failing_unpatch 0 "ex_world True" "ex_captured 1 False False False"]
  by (simp add: failing_unpatch_def log_def ex_trace)

section \<open>Running the Cleanup Scheduler twice\<close>

lemma log_weights:
  "weights_of (log l w) p = weights_of w p"
  "baseline_of (log l w) p = baseline_of w p"
  by (simp_all add: weights_of_def baseline_of_def log_def)

lemma reclaim_weights:
  "weights_of (soft_empty_cache w) p = weights_of w p"
  "baseline_of (soft_empty_cache w) p = baseline_of w p"
  "weights_of (gc_collect w) p = weights_of w p"
  "baseline_of (gc_collect w) p = baseline_of w p"
  by (simp_all add: weights_of_def baseline_of_def soft_empty_cache_def gc_collect_def)

lemma cleanup_weights:
  assumes "restores_baseline unpatch_model"
    and "cleanup_after_sampling unpatch_model c p w = Inr w1"
  shows "weights_of w1 p = baseline_of w p \<and> baseline_of w1 p = baseline_of w p"
proof -
  obtain w2 where u: "unpatch_model p (offload_device (patchers (log INFO w) p)) True (log INFO w) = Inr w2"
    and w1: "w1 = log INFO (gc_collect (soft_empty_cache w2))"
    using assms(2) by (auto simp: cleanup_after_sampling_def Let_def split: sum.splits)
  from assms(1) u have "weights_of w2 p = baseline_of (log INFO w) p \<and>
                        baseline_of w2 p = baseline_of (log INFO w) p"
    unfolding restores_baseline_def by blast
  then show ?thesis by (simp add: w1 log_weights reclaim_weights)
qed

text \<open>
  C4. With an \<open>unpatch_model\<close> that keeps the contract of the handle's interface, a second
  run of \<open>cleanup_after_sampling\<close> right after a first one leaves the model's parameters
  as the first run left them, which is at the baseline values.
\<close>

theorem cleanup_twice_same_baseline:
  assumes "restores_baseline unpatch_model"
    and "cleanup_after_sampling unpatch_model c p w = Inr w1"
    and "cleanup_after_sampling unpatch_model c p w1 = Inr w2"
  shows "weights_of w2 p = weights_of w1 p \<and> weights_of w1 p = baseline_of w p"
  using cleanup_weights [OF assms(1) assms(2)] cleanup_weights [OF assms(1) assms(3)] by simp

theorem cleanup_twice_same_baseline_witness:
  "restores_baseline restoring_unpatch \<and>
   cleanup_after_sampling restoring_unpatch (ex_captured 1 False False False) 0 (ex_world True) =
     Inr (ex_cleaned [Log INFO, SoftEmptyCache, GcCollect, Log INFO]) \<and>
   cleanup_after_sampling restoring_unpatch (ex_captured 1 False False False) 0
       (ex_cleaned [Log INFO, SoftEmptyCache, GcCollect, Log INFO]) =
     Inr (ex_cleaned [Log INFO, SoftEmptyCache, GcCollect, Log INFO,
                      Log INFO, SoftEmptyCache, GcCollect, Log INFO]) \<and>
   weights_of (ex_world True) 0 = [5, 7] \<and>
   weights_of (ex_cleaned [Log INFO, SoftEmptyCache, GcCollect, Log INFO]) 0 = [1, 2] \<and>
   weights_of (ex_cleaned [Log INFO, SoftEmptyCache, GcCollect, Log INFO,
                           Log INFO, SoftEmptyCache, GcCollect, Log INFO]) 0 = [1, 2]"
  using cleanup_twice_same_baseline [OF restoring_unpatch_restores ex_cleanup_once ex_cleanup_twice]
    restoring_unpatch_restores ex_cleanup_once ex_cleanup_twice
  by (simp add: weights_of_def baseline_of_def ex_cleaned_def ex_world_def ex_model_def ex_patcher_def)

(* str_nat *)

section \<open>Configuration Capture\<close>

text \<open>
  C6. \<open>set_callback\<close> on a handle the host has allocated returns a new handle, the clone.
  Every handle that existed, the one passed in among them, is as it was (so no callback
  is registered on the original), and so is every base model (no residency changes). The
  clone has the base model and the devices of the original, and the original's
  registrations followed by two new ones, on \<open>ON_LOAD\<close> and on \<open>ON_CLEANUP\<close>.
\<close>

theorem set_callback_clones:
  assumes "p < next_patcher w"
    and "set_callback self_id p k txt img nb w = (p', w')"
  shows "p' = next_patcher w \<and> p' \<noteq> p \<and>
         (\<forall>q. q < next_patcher w \<longrightarrow> patchers w' q = patchers w q) \<and>
         models w' = models w \<and>
         model (patchers w' p') = model (patchers w p) \<and>
         load_device (patchers w' p') = load_device (patchers w p) \<and>
         offload_device (patchers w' p') = offload_device (patchers w p) \<and>
         take (length (callbacks (patchers w p))) (callbacks (patchers w' p')) = callbacks (patchers w p) \<and>
         map fst (drop (length (callbacks (patchers w p))) (callbacks (patchers w' p'))) = [ON_LOAD, ON_CLEANUP]"
  using assms by (auto simp: set_callback_result)

theorem set_callback_clones_witness:
  "(0::nat) < next_patcher (ex_world True) \<and>
   set_callback 140 0 20 False True False (ex_world True) =
    (1, (ex_world True)\<lparr>patchers := (patchers (ex_world True))(1 := ex_patcher\<lparr>callbacks :=
          [(ON_LOAD, ''wan_block_swap_140'', Swap_blocks_after_load (ex_captured 20 False True False)),
           (ON_CLEANUP, ''wan_cleanup_140'', Cleanup_after_sampling (ex_captured 20 False True False))]\<rparr>),
       next_patcher := 2, trace := [Log INFO]\<rparr>) \<and>
   patchers (ex_world True) 0 = ex_patcher \<and> callbacks ex_patcher = []"
proof -
  have v: "(0::nat) < next_patcher (ex_world True)" by (simp add: ex_world_def)
  show ?thesis
    using set_callback_clones [OF v ex_set_callback] v ex_set_callback
    by (simp add: ex_world_def ex_patcher_def)
qed

text \<open>
  C7. \<open>set_callback\<close> adds exactly two registrations to the clone: the closure
  \<open>swap_blocks_after_load\<close> on \<open>ON_LOAD\<close> under the key \<open>wan_block_swap_\<close> followed by
  \<open>id(self)\<close>, and the closure \<open>cleanup_after_sampling\<close> on \<open>ON_CLEANUP\<close> under the key
  \<open>wan_cleanup_\<close> followed by \<open>id(self)\<close>. An instance with another identity has other
  keys: none of its two keys is one of these two.
\<close>

theorem set_callback_registers_two_keyed:
  assumes "set_callback self_id p k txt img nb w = (p', w')"
  shows "callbacks (patchers w' p') = callbacks (patchers w p) @
          [(ON_LOAD, swap_key self_id, Swap_blocks_after_load
              \<lparr>instance_id = self_id, blocks_to_swap = k, offload_txt_emb = txt,
                offload_img_emb = img, use_non_blocking = nb\<rparr>),
           (ON_CLEANUP, cleanup_key self_id, Cleanup_after_sampling
              \<lparr>instance_id = self_id, blocks_to_swap = k, offload_txt_emb = txt,
                offload_img_emb = img, use_non_blocking = nb\<rparr>)] \<and>
         (\<forall>other. other \<noteq> self_id \<longrightarrow>
            swap_key other \<noteq> swap_key self_id \<and> cleanup_key other \<noteq> cleanup_key self_id \<and>
            swap_key other \<noteq> cleanup_key self_id \<and> cleanup_key other \<noteq> swap_key self_id)"
proof -
  have "callbacks (patchers w' p') = callbacks (patchers w p) @
          [(ON_LOAD, swap_key self_id, Swap_blocks_after_load
              \<lparr>instance_id = self_id, blocks_to_swap = k, offload_txt_emb = txt,
                offload_img_emb = img, use_non_blocking = nb\<rparr>),
           (ON_CLEANUP, cleanup_key self_id, Cleanup_after_sampling
              \<lparr>instance_id = self_id, blocks_to_swap = k, offload_txt_emb = txt,
                offload_img_emb = img, use_non_blocking = nb\<rparr>)]"
    using assms by (auto simp: set_callback_result)
  moreover have "\<forall>other. other \<noteq> self_id \<longrightarrow>
            swap_key other \<noteq> swap_key self_id \<and> cleanup_key other \<noteq> cleanup_key self_id \<and>
            swap_key other \<noteq> cleanup_key self_id \<and> cleanup_key other \<noteq> swap_key self_id"
    by (simp add: keys_distinct)
  ultimately show ?thesis by blast
qed

theorem set_callback_registers_two_keyed_witness:
  "set_callback 140 0 20 False True False (ex_world True) =
    (1, (ex_world True)\<lparr>patchers := (patchers (ex_world True))(1 := ex_patcher\<lparr>callbacks :=
          [(ON_LOAD, ''wan_block_swap_140'', Swap_blocks_after_load (ex_captured 20 False True False)),
           (ON_CLEANUP, ''wan_cleanup_140'', Cleanup_after_sampling (ex_captured 20 False True False))]\<rparr>),
       next_patcher := 2, trace := [Log INFO]\<rparr>) \<and>
   (141::nat) \<noteq> 140 \<and>
   swap_key 141 = ''wan_block_swap_141'' \<and> swap_key 140 = ''wan_block_swap_140'' \<and>
   cleanup_key 141 = ''wan_cleanup_141'' \<and> cleanup_key 140 = ''wan_cleanup_140''"
  using set_callback_registers_two_keyed [OF ex_set_callback] ex_set_callback
  by (simp add: ex_keys)

end
